theory Spec2Isabelle
  imports Complex_Main "HOL-Library.Word"
begin

section \<open>Double-precision values\<close>

text \<open>
  The library computes on C++ \<^verbatim>\<open>double\<close>. The model keeps the special values the
  code branches on (NaN, the two infinities) and takes every finite value as a real
  number: arithmetic on finite values is exact (no rounding, no overflow to infinity, no
  signed zero). Arithmetic on NaN and on the infinities follows IEEE 754. What the code
  computes up to rounding, or where a finite operation overflows, is therefore outside
  this model; the statements below are about the branches the code takes, the order of
  its updates and the values it stores.
\<close>

datatype double = NaN | MInf | Fin real | PInf

fun isnan :: "double \<Rightarrow> bool" where
  "isnan NaN = True"
| "isnan _ = False"

text \<open>\<^verbatim>\<open>a < b\<close>: false as soon as one side is NaN.\<close>

fun dless :: "double \<Rightarrow> double \<Rightarrow> bool" where
  "dless NaN _ = False"
| "dless _ NaN = False"
| "dless MInf MInf = False"
| "dless MInf _ = True"
| "dless (Fin x) MInf = False"
| "dless (Fin x) (Fin y) = (x < y)"
| "dless (Fin x) PInf = True"
| "dless PInf _ = False"

fun dneg :: "double \<Rightarrow> double" where
  "dneg NaN = NaN"
| "dneg MInf = PInf"
| "dneg (Fin x) = Fin (- x)"
| "dneg PInf = MInf"

fun dadd :: "double \<Rightarrow> double \<Rightarrow> double" where
  "dadd NaN _ = NaN"
| "dadd _ NaN = NaN"
| "dadd PInf MInf = NaN"
| "dadd MInf PInf = NaN"
| "dadd PInf _ = PInf"
| "dadd _ PInf = PInf"
| "dadd MInf _ = MInf"
| "dadd _ MInf = MInf"
| "dadd (Fin x) (Fin y) = Fin (x + y)"

definition dsub :: "double \<Rightarrow> double \<Rightarrow> double" where
  "dsub a b = dadd a (dneg b)"

text \<open>The sign of a non-NaN value, as \<open>-1\<close>, \<open>0\<close> or \<open>1\<close>.\<close>

fun dsgn :: "double \<Rightarrow> int" where
  "dsgn NaN = 0"
| "dsgn MInf = - 1"
| "dsgn (Fin x) = (if x < 0 then - 1 else if x = 0 then 0 else 1)"
| "dsgn PInf = 1"

definition inf_of_sign :: "int \<Rightarrow> double" where
  "inf_of_sign k = (if k < 0 then MInf else if k = 0 then NaN else PInf)"

fun dmul :: "double \<Rightarrow> double \<Rightarrow> double" where
  "dmul NaN _ = NaN"
| "dmul _ NaN = NaN"
| "dmul (Fin x) (Fin y) = Fin (x * y)"
| "dmul a b = inf_of_sign (dsgn a * dsgn b)"

text \<open>
  Division. A finite non-zero value over zero is an infinity of the dividend's sign (the
  only divisor the library uses is a converted unsigned counter, whose zero is \<open>+0\<close>);
  \<open>0 / 0\<close> and \<open>\<infinity> / \<infinity>\<close> are NaN.
\<close>

fun ddiv :: "double \<Rightarrow> double \<Rightarrow> double" where
  "ddiv NaN _ = NaN"
| "ddiv _ NaN = NaN"
| "ddiv (Fin x) (Fin y) = (if y = 0 then inf_of_sign (dsgn (Fin x)) else Fin (x / y))"
| "ddiv (Fin x) _ = Fin 0"
| "ddiv a (Fin y) = inf_of_sign (dsgn a * (if y < 0 then - 1 else 1))"
| "ddiv _ _ = NaN"

text \<open>\<^verbatim>\<open>std::sqrt\<close>: NaN on a negative argument.\<close>

fun dsqrt :: "double \<Rightarrow> double" where
  "dsqrt NaN = NaN"
| "dsqrt MInf = NaN"
| "dsqrt (Fin x) = (if x < 0 then NaN else Fin (sqrt x))"
| "dsqrt PInf = PInf"

text \<open>
  \<^verbatim>\<open>std::min(a, b)\<close> is \<^verbatim>\<open>(b < a) ? b : a\<close> and \<^verbatim>\<open>std::max(a, b)\<close> is
  \<^verbatim>\<open>(a < b) ? b : a\<close>.
\<close>

definition std_min :: "double \<Rightarrow> double \<Rightarrow> double" where
  "std_min a b = (if dless b a then b else a)"

definition std_max :: "double \<Rightarrow> double \<Rightarrow> double" where
  "std_max a b = (if dless a b then b else a)"

text \<open>The implicit conversion of a \<^verbatim>\<open>uint64_t\<close> to \<^verbatim>\<open>double\<close>.\<close>

definition double_of_uint64 :: "64 word \<Rightarrow> double" where
  "double_of_uint64 n = Fin (real (unat n))"

text \<open>
  \<^verbatim>\<open>std::numeric_limits<double>::max()\<close> is the largest finite double and
  \<^verbatim>\<open>std::numeric_limits<double>::min()\<close> is the smallest positive normalised double.
\<close>

definition numeric_limits_max :: real where
  "numeric_limits_max = (2 ^ 53 - 1) * 2 ^ 971"

definition numeric_limits_min :: real where
  "numeric_limits_min = 1 / 2 ^ 1022"

section \<open>moving\_average.cpp: the online aggregator\<close>

text \<open>
  The members of \<^verbatim>\<open>MovingAverageStatistics\<close> (\<^verbatim>\<open>average_\<close>, \<^verbatim>\<open>min_\<close>, \<^verbatim>\<open>max_\<close>,
  \<^verbatim>\<open>sum_of_square_diff_from_mean_\<close>, \<^verbatim>\<open>count_\<close>); a name cannot end with an underscore
  here, so the members end with \<open>_m\<close>. Every method holds the object's mutex for its
  whole body, so a method is one atomic step on this record.
\<close>

record MovingAverageStatistics =
  average_m :: double
  min_m :: double
  max_m :: double
  sum_of_square_diff_from_mean_m :: double
  count_m :: "64 word"

text \<open>\<^verbatim>\<open>StatisticData\<close> (types.hpp); its fields \<^verbatim>\<open>min\<close> and \<^verbatim>\<open>max\<close> are \<open>min_val\<close>, \<open>max_val\<close>.\<close>

record StatisticData =
  average :: double
  min_val :: double
  max_val :: double
  standard_deviation :: double
  sample_count :: "64 word"

text \<open>The default member initialisers of \<^verbatim>\<open>StatisticData\<close>.\<close>

definition StatisticData_default :: StatisticData where
  "StatisticData_default =
     \<lparr>average = NaN, min_val = NaN, max_val = NaN, standard_deviation = NaN, sample_count = 0\<rparr>"

text \<open>The default member initialisers of \<^verbatim>\<open>MovingAverageStatistics\<close>.\<close>

definition MovingAverageStatistics_default :: MovingAverageStatistics where
  "MovingAverageStatistics_default =
     \<lparr>average_m = Fin 0, min_m = Fin numeric_limits_max, max_m = Fin numeric_limits_min,
      sum_of_square_diff_from_mean_m = Fin 0, count_m = 0\<rparr>"

definition GetStatistics :: "MovingAverageStatistics \<Rightarrow> StatisticData" where
  "GetStatistics s =
     (let to_return = StatisticData_default in
      if count_m s = 0 then to_return
      else to_return\<lparr>sample_count := count_m s,
                     average := average_m s,
                     min_val := min_m s,
                     max_val := max_m s,
                     standard_deviation :=
                       dsqrt (ddiv (sum_of_square_diff_from_mean_m s) (double_of_uint64 (count_m s)))\<rparr>)"

definition Reset :: "MovingAverageStatistics \<Rightarrow> MovingAverageStatistics" where
  "Reset s =
     s\<lparr>average_m := Fin 0,
       min_m := Fin numeric_limits_max,
       max_m := Fin numeric_limits_min,
       sum_of_square_diff_from_mean_m := Fin 0,
       count_m := 0\<rparr>"

text \<open>\<^verbatim>\<open>count_++\<close> is the addition of \<^verbatim>\<open>uint64_t\<close>: it wraps at \<open>2 ^ 64\<close>.\<close>

definition AddMeasurement :: "double \<Rightarrow> MovingAverageStatistics \<Rightarrow> MovingAverageStatistics" where
  "AddMeasurement item s =
     (if \<not> isnan item then
        (let s1 = s\<lparr>count_m := count_m s + 1\<rparr>;
             previous_average = average_m s1;
             s2 = s1\<lparr>average_m :=
                      dadd previous_average
                        (ddiv (dsub item previous_average) (double_of_uint64 (count_m s1)))\<rparr>;
             s3 = s2\<lparr>min_m := std_min (min_m s2) item\<rparr>;
             s4 = s3\<lparr>max_m := std_max (max_m s3) item\<rparr>
         in s4\<lparr>sum_of_square_diff_from_mean_m :=
                 dadd (sum_of_square_diff_from_mean_m s4)
                   (dmul (dsub item previous_average) (dsub item (average_m s4)))\<rparr>)
      else s)"

definition GetCount :: "MovingAverageStatistics \<Rightarrow> 64 word" where
  "GetCount s = count_m s"

definition Average :: "MovingAverageStatistics \<Rightarrow> double" where
  "Average s = average (GetStatistics s)"

definition Max :: "MovingAverageStatistics \<Rightarrow> double" where
  "Max s = max_val (GetStatistics s)"

definition Min :: "MovingAverageStatistics \<Rightarrow> double" where
  "Min s = min_val (GetStatistics s)"

definition StandardDeviation :: "MovingAverageStatistics \<Rightarrow> double" where
  "StandardDeviation s = standard_deviation (GetStatistics s)"

section \<open>collector.cpp: the collection lifecycle\<close>

text \<open>
  \<^verbatim>\<open>Collector\<close> owns the aggregate \<^verbatim>\<open>collected_data_\<close> and the flag \<^verbatim>\<open>started_\<close>; a
  class derived from it adds members of its own, the field \<open>derived\<close>. The pure virtual
  hooks \<^verbatim>\<open>SetupStart\<close> and \<^verbatim>\<open>SetupStop\<close> are given by the derived class: they act on its
  members and return a flag, as the hooks of both collectors of the repository do. The
  methods are modelled one call at a time, each running to its end; the interleaving of
  threads is not modelled.
\<close>

record 'a Collector =
  collected_data_m :: MovingAverageStatistics
  started_m :: bool
  derived :: 'a

record 'a Specialization =
  SetupStart :: "'a \<Rightarrow> bool \<times> 'a"
  SetupStop :: "'a \<Rightarrow> bool \<times> 'a"

text \<open>A newly constructed collector, around the members \<open>d\<close> of the derived class.\<close>

definition Collector_new :: "'a \<Rightarrow> 'a Collector" where
  "Collector_new d =
     \<lparr>collected_data_m = MovingAverageStatistics_default, started_m = False, derived = d\<rparr>"

definition AcceptData :: "double \<Rightarrow> 'a Collector \<Rightarrow> 'a Collector" where
  "AcceptData measurement c =
     c\<lparr>collected_data_m := AddMeasurement measurement (collected_data_m c)\<rparr>"

definition GetStatisticsResults :: "'a Collector \<Rightarrow> StatisticData" where
  "GetStatisticsResults c = GetStatistics (collected_data_m c)"

definition ClearCurrentMeasurements :: "'a Collector \<Rightarrow> 'a Collector" where
  "ClearCurrentMeasurements c = c\<lparr>collected_data_m := Reset (collected_data_m c)\<rparr>"

definition IsStarted :: "'a Collector \<Rightarrow> bool" where
  "IsStarted c = started_m c"

text \<open>\<open>Start\<close> and \<open>Stop\<close> return the flag of the C++ method and the collector afterwards.\<close>

definition Start :: "'a Specialization \<Rightarrow> 'a Collector \<Rightarrow> bool \<times> 'a Collector" where
  "Start v c =
     (if started_m c then (False, c)
      else
        (let c1 = c\<lparr>started_m := True\<rparr>;
             (r, d) = SetupStart v (derived c1)
         in (r, c1\<lparr>derived := d\<rparr>)))"

definition Stop :: "'a Specialization \<Rightarrow> 'a Collector \<Rightarrow> bool \<times> 'a Collector" where
  "Stop v c =
     (if \<not> started_m c then (False, c)
      else
        (let c1 = c\<lparr>started_m := False\<rparr>;
             (ret, d) = SetupStop v (derived c1);
             c2 = c1\<lparr>derived := d\<rparr>
         in (ret, ClearCurrentMeasurements c2)))"

text \<open>
  A derived class for the examples: its only member counts the calls of its hooks, and
  both hooks report failure.
\<close>

definition failing_hooks :: "nat Specialization" where
  "failing_hooks = \<lparr>SetupStart = (\<lambda>d. (False, Suc d)), SetupStop = (\<lambda>d. (False, Suc d))\<rparr>"

section \<open>received\_message\_period.hpp: the period collector\<close>

text \<open>
  \<^verbatim>\<open>rcl_time_point_value_t\<close> is \<^verbatim>\<open>int64_t\<close>: a 64-bit word read as a signed value. The
  subtraction of two time points wraps here where the C++ subtraction overflows.
\<close>

record ReceivedMessagePeriodCollector =
  time_last_message_received_m :: "64 word"

definition kUninitializedTime :: "64 word" where
  "kUninitializedTime = 0"

definition ResetTimeLastMessageReceived ::
    "ReceivedMessagePeriodCollector \<Rightarrow> ReceivedMessagePeriodCollector" where
  "ResetTimeLastMessageReceived d = d\<lparr>time_last_message_received_m := kUninitializedTime\<rparr>"

text \<open>
  \<^verbatim>\<open>std::chrono::duration<double, std::milli>(nanos).count()\<close>: the count of nanoseconds
  as a double, divided by \<open>1000000\<close>.
\<close>

definition milliseconds_of_nanoseconds :: "64 word \<Rightarrow> double" where
  "milliseconds_of_nanoseconds nanos = Fin (real_of_int (sint nanos) / 1000000)"

text \<open>The constructor calls \<^verbatim>\<open>ResetTimeLastMessageReceived\<close>.\<close>

definition ReceivedMessagePeriodCollector_new :: "ReceivedMessagePeriodCollector Collector" where
  "ReceivedMessagePeriodCollector_new =
     Collector_new (ResetTimeLastMessageReceived \<lparr>time_last_message_received_m = kUninitializedTime\<rparr>)"

definition period_SetupStart ::
    "ReceivedMessagePeriodCollector \<Rightarrow> bool \<times> ReceivedMessagePeriodCollector" where
  "period_SetupStart d = (True, ResetTimeLastMessageReceived d)"

definition period_SetupStop ::
    "ReceivedMessagePeriodCollector \<Rightarrow> bool \<times> ReceivedMessagePeriodCollector" where
  "period_SetupStop d = (True, d)"

definition period_hooks :: "ReceivedMessagePeriodCollector Specialization" where
  "period_hooks = \<lparr>SetupStart = period_SetupStart, SetupStop = period_SetupStop\<rparr>"

text \<open>The received message is ignored; only the time of receipt is used.\<close>

definition OnMessageReceived ::
    "'m \<Rightarrow> 64 word \<Rightarrow> ReceivedMessagePeriodCollector Collector
      \<Rightarrow> ReceivedMessagePeriodCollector Collector" where
  "OnMessageReceived received_message now_nanoseconds c =
     (if time_last_message_received_m (derived c) = kUninitializedTime then
        c\<lparr>derived := (derived c)\<lparr>time_last_message_received_m := now_nanoseconds\<rparr>\<rparr>
      else
        (let nanos = now_nanoseconds - time_last_message_received_m (derived c);
             period = milliseconds_of_nanoseconds nanos;
             c1 = c\<lparr>derived := (derived c)\<lparr>time_last_message_received_m := now_nanoseconds\<rparr>\<rparr>
         in AcceptData period c1))"

text \<open>A sequence of received events, each a message and its time of receipt.\<close>

definition OnMessagesReceived ::
    "('m \<times> 64 word) list \<Rightarrow> ReceivedMessagePeriodCollector Collector
      \<Rightarrow> ReceivedMessagePeriodCollector Collector" where
  "OnMessagesReceived evs c = foldl (\<lambda>c (m, now). OnMessageReceived m now c) c evs"

text \<open>A sequence of calls of \<open>AcceptData\<close>, in the order of the list.\<close>

definition AcceptDataList :: "double list \<Rightarrow> 'a Collector \<Rightarrow> 'a Collector" where
  "AcceptDataList xs c = foldl (\<lambda>c x. AcceptData x c) c xs"

subsection \<open>The observations the specification expects\<close>

text \<open>
  In the specification's words: the first event records its time of receipt and feeds
  nothing; every later event feeds the difference between its time of receipt and the
  one before it, in milliseconds.
\<close>

fun periods_after :: "64 word \<Rightarrow> 64 word list \<Rightarrow> double list" where
  "periods_after last_received [] = []"
| "periods_after last_received (now # ts) =
     milliseconds_of_nanoseconds (now - last_received) # periods_after now ts"

fun expected_periods :: "64 word list \<Rightarrow> double list" where
  "expected_periods [] = []"
| "expected_periods (t # ts) = periods_after t ts"

section \<open>generate\_statistics\_message.cpp: the result message\<close>

text \<open>
  Modelled from the spec: the message types \<^verbatim>\<open>MetricsMessage\<close>, \<^verbatim>\<open>StatisticDataPoint\<close>
  and \<^verbatim>\<open>StatisticDataType\<close> of the package \<^verbatim>\<open>statistics_msgs\<close> and \<^verbatim>\<open>Time\<close> of
  \<^verbatim>\<open>builtin_interfaces\<close> are declared outside the repository. The record has the fields
  and the enumeration has the members the specification's outbound interface lists; a
  new data point is zero-initialised.
\<close>

datatype StatisticDataType =
    STATISTICS_DATA_TYPE_UNINITIALIZED
  | STATISTICS_DATA_TYPE_AVERAGE
  | STATISTICS_DATA_TYPE_MINIMUM
  | STATISTICS_DATA_TYPE_MAXIMUM
  | STATISTICS_DATA_TYPE_STDDEV
  | STATISTICS_DATA_TYPE_SAMPLE_COUNT

record StatisticDataPoint =
  data_type :: StatisticDataType
  data :: double

record Time =
  sec :: "32 word"
  nanosec :: "32 word"

record MetricsMessage =
  measurement_source_name :: string
  metrics_source :: string
  unit_name :: string
  window_start :: Time
  window_stop :: Time
  statistics :: "StatisticDataPoint list"

definition MetricsMessage_default :: MetricsMessage where
  "MetricsMessage_default =
     \<lparr>measurement_source_name = [], metrics_source = [], unit_name = [],
      window_start = \<lparr>sec = 0, nanosec = 0\<rparr>, window_stop = \<lparr>sec = 0, nanosec = 0\<rparr>,
      statistics = []\<rparr>"

text \<open>
  \<^verbatim>\<open>msg.statistics.emplace_back()\<close> appends a new data point, and an assignment through
  \<^verbatim>\<open>msg.statistics.back()\<close> changes the last one (the vector is never empty there).
\<close>

definition emplace_back :: "MetricsMessage \<Rightarrow> MetricsMessage" where
  "emplace_back msg =
     msg\<lparr>statistics :=
           statistics msg @ [\<lparr>data_type = STATISTICS_DATA_TYPE_UNINITIALIZED, data = Fin 0\<rparr>]\<rparr>"

definition back_update ::
    "(StatisticDataPoint \<Rightarrow> StatisticDataPoint) \<Rightarrow> MetricsMessage \<Rightarrow> MetricsMessage" where
  "back_update f msg =
     msg\<lparr>statistics := butlast (statistics msg) @ [f (last (statistics msg))]\<rparr>"

definition push_statistic :: "StatisticDataType \<Rightarrow> double \<Rightarrow> MetricsMessage \<Rightarrow> MetricsMessage" where
  "push_statistic ty v msg =
     back_update (\<lambda>p. p\<lparr>data := v\<rparr>) (back_update (\<lambda>p. p\<lparr>data_type := ty\<rparr>) (emplace_back msg))"

definition GenerateStatisticMessage ::
    "string \<Rightarrow> string \<Rightarrow> string \<Rightarrow> Time \<Rightarrow> Time \<Rightarrow> StatisticData \<Rightarrow> MetricsMessage" where
  "GenerateStatisticMessage node_name metric_name unit window_start_arg window_stop_arg d =
     (let msg = MetricsMessage_default;
          msg = msg\<lparr>measurement_source_name := node_name\<rparr>;
          msg = msg\<lparr>metrics_source := metric_name\<rparr>;
          msg = msg\<lparr>unit_name := unit\<rparr>;
          msg = msg\<lparr>window_start := window_start_arg\<rparr>;
          msg = msg\<lparr>window_stop := window_stop_arg\<rparr>;
          msg = push_statistic STATISTICS_DATA_TYPE_AVERAGE (average d) msg;
          msg = push_statistic STATISTICS_DATA_TYPE_MAXIMUM (max_val d) msg;
          msg = push_statistic STATISTICS_DATA_TYPE_MINIMUM (min_val d) msg;
          msg = push_statistic STATISTICS_DATA_TYPE_SAMPLE_COUNT
                  (double_of_uint64 (sample_count d)) msg;
          msg = push_statistic STATISTICS_DATA_TYPE_STDDEV (standard_deviation d) msg
      in msg)"

section \<open>Properties of the aggregator\<close>

subsection \<open>Comparisons and conversions on finite values\<close>

lemma std_min_Fin: "std_min (Fin a) (Fin b) = Fin (min a b)"
  by (simp add: std_min_def min_def)

lemma std_max_Fin: "std_max (Fin a) (Fin b) = Fin (max a b)"
  by (simp add: std_max_def max_def)

lemma numeric_limits_min_pos: "0 < numeric_limits_min"
  by (simp add: numeric_limits_min_def)

subsection \<open>One measurement\<close>

text \<open>
  C1. For every state of the aggregate and every input \<open>x\<close> that is not NaN,
  \<open>AddMeasurement x\<close> is the Welford step: the count becomes \<open>n + 1\<close> (the addition of
  \<^verbatim>\<open>uint64_t\<close>), the mean becomes \<open>m + (x - m) / (n + 1)\<close>, min and max become
  \<^verbatim>\<open>std::min\<close> and \<^verbatim>\<open>std::max\<close> of the old value and \<open>x\<close>, and the sum of squared
  differences becomes \<open>s + (x - m) * (x - m')\<close> with \<open>m'\<close> the mean already updated.
\<close>

theorem AddMeasurement_Welford_step:
  "\<not> isnan x \<longrightarrow>
     count_m (AddMeasurement x s) = count_m s + 1
   \<and> average_m (AddMeasurement x s) =
       dadd (average_m s) (ddiv (dsub x (average_m s)) (double_of_uint64 (count_m s + 1)))
   \<and> min_m (AddMeasurement x s) = std_min (min_m s) x
   \<and> max_m (AddMeasurement x s) = std_max (max_m s) x
   \<and> sum_of_square_diff_from_mean_m (AddMeasurement x s) =
       dadd (sum_of_square_diff_from_mean_m s)
         (dmul (dsub x (average_m s)) (dsub x (average_m (AddMeasurement x s))))"
  by (simp add: AddMeasurement_def Let_def)

theorem AddMeasurement_Welford_step_witness:
  "\<not> isnan (Fin 3)
   \<and> AddMeasurement (Fin 3)
        \<lparr>average_m = Fin (3 / 2), min_m = Fin 1, max_m = Fin 2,
         sum_of_square_diff_from_mean_m = Fin (1 / 2), count_m = 2\<rparr>
       = \<lparr>average_m = Fin 2, min_m = Fin 1, max_m = Fin 3,
          sum_of_square_diff_from_mean_m = Fin 2, count_m = 3\<rparr>"
  using AddMeasurement_Welford_step
    [of "Fin 3" "\<lparr>average_m = Fin (3 / 2), min_m = Fin 1, max_m = Fin 2,
         sum_of_square_diff_from_mean_m = Fin (1 / 2), count_m = 2\<rparr>"]
  by (simp add: AddMeasurement_def Let_def std_min_def std_max_def dsub_def double_of_uint64_def)

subsection \<open>The empty window and rejected input\<close>

text \<open>
  C3. Whenever the count is 0, and in particular after \<open>Reset\<close> on any state at all,
  \<open>GetStatistics\<close> returns the snapshot whose average, min, max and standard deviation
  are NaN and whose sample count is 0.
\<close>

theorem GetStatistics_empty:
  "(count_m s = 0 \<longrightarrow>
      GetStatistics s =
        \<lparr>average = NaN, min_val = NaN, max_val = NaN, standard_deviation = NaN,
         sample_count = 0\<rparr>)
   \<and> GetStatistics (Reset t) =
        \<lparr>average = NaN, min_val = NaN, max_val = NaN, standard_deviation = NaN,
         sample_count = 0\<rparr>"
  by (simp add: GetStatistics_def Reset_def StatisticData_default_def)

theorem GetStatistics_empty_witness:
  "count_m (Reset (AddMeasurement (Fin 3) (AddMeasurement (Fin 4) MovingAverageStatistics_default))) = 0
   \<and> isnan (average (GetStatistics
        (Reset (AddMeasurement (Fin 3) (AddMeasurement (Fin 4) MovingAverageStatistics_default)))))
   \<and> sample_count (GetStatistics
        (Reset (AddMeasurement (Fin 3) (AddMeasurement (Fin 4) MovingAverageStatistics_default)))) = 0"
  using GetStatistics_empty
    [of "Reset (AddMeasurement (Fin 3) (AddMeasurement (Fin 4) MovingAverageStatistics_default))"
        MovingAverageStatistics_default]
  by (simp add: Reset_def)

text \<open>
  C4. \<open>AddMeasurement\<close> of NaN changes no member of the aggregate (the function is total,
  there is no error to return), so \<open>GetStatistics\<close> and \<open>GetCount\<close> afterwards give
  what they gave before.
\<close>

theorem AddMeasurement_NaN_noop:
  "AddMeasurement NaN s = s
   \<and> GetStatistics (AddMeasurement NaN s) = GetStatistics s
   \<and> GetCount (AddMeasurement NaN s) = GetCount s"
  by (simp add: AddMeasurement_def)

subsection \<open>The first measurement after a reset\<close>

text \<open>
  C5. After \<open>Reset\<close>, the first measurement should overwrite the sentinels of min and
  max. At the measurement \<open>-1\<close> the count, the mean and min are as expected, but max
  keeps the sentinel \<^verbatim>\<open>std::numeric_limits<double>::min()\<close>, a positive value.
\<close>

theorem Reset_AddMeasurement_max_sentinel:
  "count_m (AddMeasurement (Fin (- 1)) (Reset s)) = 1
   \<and> average_m (AddMeasurement (Fin (- 1)) (Reset s)) = Fin (- 1)
   \<and> min_m (AddMeasurement (Fin (- 1)) (Reset s)) = Fin (- 1)
   \<and> max_m (AddMeasurement (Fin (- 1)) (Reset s)) = Fin numeric_limits_min
   \<and> max_m (AddMeasurement (Fin (- 1)) (Reset s)) \<noteq> Fin (- 1)"
  by (simp add: AddMeasurement_def Reset_def Let_def std_min_def std_max_def dsub_def
      double_of_uint64_def numeric_limits_min_def numeric_limits_max_def)

text \<open>The sentinels are overwritten when the measurement lies between them.\<close>

lemma Reset_AddMeasurement_in_range:
  "numeric_limits_min \<le> x \<Longrightarrow> x \<le> numeric_limits_max \<Longrightarrow>
   AddMeasurement (Fin x) (Reset s) =
     s\<lparr>average_m := Fin x, min_m := Fin x, max_m := Fin x,
       sum_of_square_diff_from_mean_m := Fin 0, count_m := 1\<rparr>"
  by (simp add: AddMeasurement_def Reset_def Let_def std_min_def std_max_def dsub_def
      double_of_uint64_def)

section \<open>Properties of the collection lifecycle\<close>

text \<open>
  C6. When \<open>Stop\<close> finds the collector started, the aggregate is cleared by \<open>Reset\<close>
  whatever the hook \<open>SetupStop\<close> returns: the aggregate afterwards is the \<open>Reset\<close> of the
  aggregate before, so \<open>GetCount\<close> is 0, and \<open>Stop\<close> returns the flag of the hook.
\<close>

theorem Stop_clears_measurements:
  "started_m c \<longrightarrow>
     collected_data_m (snd (Stop v c)) = Reset (collected_data_m c)
   \<and> GetCount (collected_data_m (snd (Stop v c))) = 0
   \<and> fst (Stop v c) = fst (SetupStop v (derived c))
   \<and> \<not> IsStarted (snd (Stop v c))"
  by (simp add: Stop_def Let_def ClearCurrentMeasurements_def Reset_def GetCount_def IsStarted_def
      split: prod.splits)

theorem Stop_clears_measurements_witness:
  "started_m (AcceptData (Fin 7) ((Collector_new (0::nat))\<lparr>started_m := True\<rparr>))
   \<and> GetCount (collected_data_m (AcceptData (Fin 7) ((Collector_new (0::nat))\<lparr>started_m := True\<rparr>))) = 1
   \<and> average_m (collected_data_m (AcceptData (Fin 7) ((Collector_new (0::nat))\<lparr>started_m := True\<rparr>))) = Fin 7
   \<and> fst (Stop failing_hooks (AcceptData (Fin 7) ((Collector_new (0::nat))\<lparr>started_m := True\<rparr>))) = False
   \<and> collected_data_m
        (snd (Stop failing_hooks (AcceptData (Fin 7) ((Collector_new (0::nat))\<lparr>started_m := True\<rparr>))))
       = \<lparr>average_m = Fin 0, min_m = Fin numeric_limits_max, max_m = Fin numeric_limits_min,
          sum_of_square_diff_from_mean_m = Fin 0, count_m = 0\<rparr>
   \<and> GetCount (collected_data_m
        (snd (Stop failing_hooks (AcceptData (Fin 7) ((Collector_new (0::nat))\<lparr>started_m := True\<rparr>))))) = 0"
  using Stop_clears_measurements
    [of "AcceptData (Fin 7) ((Collector_new (0::nat))\<lparr>started_m := True\<rparr>)" failing_hooks]
  by (simp add: AcceptData_def Collector_new_def failing_hooks_def GetCount_def AddMeasurement_def
      MovingAverageStatistics_default_def Let_def Reset_def dsub_def double_of_uint64_def
      std_min_def std_max_def)

text \<open>
  C7. With hooks that return true: from the stopped state \<open>Start\<close> returns true and a
  second \<open>Start\<close> returns false and changes nothing (the flag stays set and the members
  of the derived class are untouched, so no hook ran); from the started state \<open>Stop\<close>
  returns true and a second \<open>Stop\<close> returns false and changes nothing.
\<close>

theorem Start_Stop_twice:
  "(\<forall>d. fst (SetupStart v d)) \<and> (\<forall>d. fst (SetupStop v d)) \<longrightarrow>
     (\<not> started_m c \<longrightarrow>
        fst (Start v c) = True
      \<and> IsStarted (snd (Start v c))
      \<and> Start v (snd (Start v c)) = (False, snd (Start v c)))
   \<and> (started_m c \<longrightarrow>
        fst (Stop v c) = True
      \<and> \<not> IsStarted (snd (Stop v c))
      \<and> Stop v (snd (Stop v c)) = (False, snd (Stop v c)))"
  by (simp add: Start_def Stop_def Let_def IsStarted_def ClearCurrentMeasurements_def
      split: prod.splits) (metis fst_conv)

theorem Start_Stop_twice_witness:
  "(\<forall>d. fst (SetupStart period_hooks d)) \<and> (\<forall>d. fst (SetupStop period_hooks d))
   \<and> \<not> started_m ReceivedMessagePeriodCollector_new
   \<and> fst (Start period_hooks ReceivedMessagePeriodCollector_new) = True
   \<and> fst (Start period_hooks (snd (Start period_hooks ReceivedMessagePeriodCollector_new))) = False
   \<and> started_m (snd (Start period_hooks ReceivedMessagePeriodCollector_new))
   \<and> fst (Stop period_hooks (snd (Start period_hooks ReceivedMessagePeriodCollector_new))) = True
   \<and> fst (Stop period_hooks
        (snd (Stop period_hooks (snd (Start period_hooks ReceivedMessagePeriodCollector_new))))) = False"
  using Start_Stop_twice [of period_hooks ReceivedMessagePeriodCollector_new]
    Start_Stop_twice [of period_hooks "snd (Start period_hooks ReceivedMessagePeriodCollector_new)"]
  by (simp add: period_hooks_def period_SetupStart_def period_SetupStop_def
      ReceivedMessagePeriodCollector_new_def Collector_new_def IsStarted_def)

text \<open>
  C10. When \<open>Start\<close> is called on a stopped collector and \<open>SetupStart\<close> returns false,
  \<open>Start\<close> returns false but the collector is started: \<open>IsStarted\<close> is true, a further
  \<open>Start\<close> returns false, and \<open>Stop\<close> returns the flag of its hook.
\<close>

theorem Start_hook_failure_leaves_started:
  "\<not> started_m c \<and> \<not> fst (SetupStart v (derived c)) \<longrightarrow>
     fst (Start v c) = False
   \<and> IsStarted (snd (Start v c))
   \<and> fst (Start v (snd (Start v c))) = False
   \<and> fst (Stop v (snd (Start v c))) = fst (SetupStop v (derived (snd (Start v c))))"
  by (simp add: Start_def Stop_def Let_def IsStarted_def split: prod.splits)

theorem Start_hook_failure_leaves_started_witness:
  "\<not> started_m (Collector_new (0::nat)) \<and> \<not> fst (SetupStart failing_hooks (derived (Collector_new (0::nat))))
   \<and> fst (Start failing_hooks (Collector_new 0)) = False
   \<and> IsStarted (snd (Start failing_hooks (Collector_new 0)))
   \<and> derived (snd (Start failing_hooks (Collector_new 0))) = 1
   \<and> Start failing_hooks (snd (Start failing_hooks (Collector_new 0)))
       = (False, snd (Start failing_hooks (Collector_new 0)))
   \<and> fst (Stop failing_hooks (snd (Start failing_hooks (Collector_new 0)))) = False"
  using Start_hook_failure_leaves_started [of "Collector_new (0::nat)" failing_hooks]
  by (simp add: failing_hooks_def Collector_new_def Start_def Stop_def IsStarted_def Let_def)

section \<open>Properties of the period collector\<close>

lemma AcceptData_derived_update:
  "AcceptData x (c\<lparr>derived := d\<rparr>) = (AcceptData x c)\<lparr>derived := d\<rparr>"
  by (simp add: AcceptData_def)

lemma AcceptDataList_derived_update:
  "AcceptDataList xs (c\<lparr>derived := d\<rparr>) = (AcceptDataList xs c)\<lparr>derived := d\<rparr>"
proof (induction xs arbitrary: c)
  case Nil
  show ?case by (simp add: AcceptDataList_def)
next
  case (Cons x xs)
  have "AcceptDataList (x # xs) (c\<lparr>derived := d\<rparr>) = AcceptDataList xs (AcceptData x (c\<lparr>derived := d\<rparr>))"
    by (simp add: AcceptDataList_def)
  also have "\<dots> = AcceptDataList xs ((AcceptData x c)\<lparr>derived := d\<rparr>)"
    by (simp only: AcceptData_derived_update)
  also have "\<dots> = (AcceptDataList xs (AcceptData x c))\<lparr>derived := d\<rparr>"
    by (rule Cons.IH)
  finally show ?case by (simp add: AcceptDataList_def)
qed

lemma AcceptDataList_Cons:
  "AcceptDataList (x # xs) c = AcceptDataList xs (AcceptData x c)"
  by (simp add: AcceptDataList_def)

lemma AcceptData_derived: "derived (AcceptData x c) = derived c"
  by (simp add: AcceptData_def)

lemma OnMessagesReceived_Cons:
  "OnMessagesReceived ((m, now) # evs) c = OnMessagesReceived evs (OnMessageReceived m now c)"
  by (simp add: OnMessagesReceived_def)

lemma OnMessagesReceived_initialised:
  "time_last_message_received_m (derived c) \<noteq> kUninitializedTime \<Longrightarrow>
   kUninitializedTime \<notin> snd ` set evs \<Longrightarrow>
   OnMessagesReceived evs c =
     (AcceptDataList (periods_after (time_last_message_received_m (derived c)) (map snd evs)) c)
       \<lparr>derived := (derived c)\<lparr>time_last_message_received_m :=
          last (time_last_message_received_m (derived c) # map snd evs)\<rparr>\<rparr>"
proof (induction evs arbitrary: c)
  case Nil
  show ?case by (simp add: OnMessagesReceived_def AcceptDataList_def)
next
  case (Cons ev evs)
  obtain m now where ev: "ev = (m, now)" by (cases ev)
  let ?last = "time_last_message_received_m (derived c)"
  let ?p = "milliseconds_of_nanoseconds (now - ?last)"
  let ?d = "(derived c)\<lparr>time_last_message_received_m := now\<rparr>"
  let ?c1 = "AcceptData ?p (c\<lparr>derived := ?d\<rparr>)"
  from Cons.prems(2) ev have now: "now \<noteq> kUninitializedTime" and rest: "kUninitializedTime \<notin> snd ` set evs"
    by auto
  have step: "OnMessageReceived m now c = ?c1"
    using Cons.prems(1) by (simp add: OnMessageReceived_def Let_def)
  have d1: "derived ?c1 = ?d" by (simp add: AcceptData_def)
  have t1: "time_last_message_received_m (derived ?c1) = now" by (simp add: d1)
  have init1: "time_last_message_received_m (derived ?c1) \<noteq> kUninitializedTime"
    using now by (simp add: t1)
  have "OnMessagesReceived (ev # evs) c = OnMessagesReceived evs ?c1"
    by (simp add: ev OnMessagesReceived_Cons step)
  also have "\<dots> = (AcceptDataList (periods_after now (map snd evs)) ?c1)
       \<lparr>derived := (derived ?c1)\<lparr>time_last_message_received_m := last (now # map snd evs)\<rparr>\<rparr>"
    using Cons.IH [OF init1 rest] by (simp only: t1)
  also have "\<dots> = (AcceptDataList (periods_after ?last (map snd (ev # evs))) c)
       \<lparr>derived := (derived c)\<lparr>time_last_message_received_m := last (?last # map snd (ev # evs))\<rparr>\<rparr>"
    by (simp add: ev d1 AcceptDataList_Cons AcceptData_derived_update AcceptDataList_derived_update)
  finally show ?case .
qed

text \<open>
  C8, as amended. For every non-empty sequence of events whose times of receipt are all
  different from 0, received by a collector whose last time of receipt is uninitialised
  (as it is after construction and after \<open>SetupStart\<close>): the first event records its time
  of receipt and feeds nothing to \<open>AcceptData\<close>, and the whole sequence feeds exactly the
  differences of consecutive times of receipt, in milliseconds and in order, and leaves
  the last time of receipt recorded.
\<close>

theorem OnMessageReceived_periods:
  "time_last_message_received_m (derived c) = kUninitializedTime
     \<and> evs \<noteq> [] \<and> kUninitializedTime \<notin> snd ` set evs \<longrightarrow>
   OnMessageReceived (fst (hd evs)) (snd (hd evs)) c =
     c\<lparr>derived := (derived c)\<lparr>time_last_message_received_m := snd (hd evs)\<rparr>\<rparr>
   \<and> OnMessagesReceived evs c =
     (AcceptDataList (expected_periods (map snd evs)) c)
       \<lparr>derived := (derived c)\<lparr>time_last_message_received_m := snd (last evs)\<rparr>\<rparr>"
proof (intro impI, elim conjE)
  assume init: "time_last_message_received_m (derived c) = kUninitializedTime"
    and ne: "evs \<noteq> []" and nz: "kUninitializedTime \<notin> snd ` set evs"
  from ne obtain m now rest where evs: "evs = (m, now) # rest" by (cases evs) auto
  let ?d = "(derived c)\<lparr>time_last_message_received_m := now\<rparr>"
  let ?c1 = "c\<lparr>derived := ?d\<rparr>"
  have first: "OnMessageReceived m now c = ?c1"
    using init by (simp add: OnMessageReceived_def)
  from nz evs have now: "now \<noteq> kUninitializedTime" and rest: "kUninitializedTime \<notin> snd ` set rest"
    by auto
  have init1: "time_last_message_received_m (derived ?c1) \<noteq> kUninitializedTime"
    using now by simp
  have l: "last (now # map snd rest) = snd (last evs)"
    by (simp add: evs last_map)
  have "OnMessagesReceived evs c = OnMessagesReceived rest ?c1"
    by (simp add: evs OnMessagesReceived_Cons first)
  also have "\<dots> = (AcceptDataList (periods_after now (map snd rest)) ?c1)
       \<lparr>derived := ?d\<lparr>time_last_message_received_m := last (now # map snd rest)\<rparr>\<rparr>"
    using OnMessagesReceived_initialised [OF init1 rest] by simp
  also have "\<dots> = (AcceptDataList (expected_periods (map snd evs)) c)
       \<lparr>derived := (derived c)\<lparr>time_last_message_received_m := snd (last evs)\<rparr>\<rparr>"
    unfolding l by (simp add: evs AcceptDataList_derived_update)
  finally have seq: "OnMessagesReceived evs c =
     (AcceptDataList (expected_periods (map snd evs)) c)
       \<lparr>derived := (derived c)\<lparr>time_last_message_received_m := snd (last evs)\<rparr>\<rparr>" .
  from first seq show "OnMessageReceived (fst (hd evs)) (snd (hd evs)) c =
     c\<lparr>derived := (derived c)\<lparr>time_last_message_received_m := snd (hd evs)\<rparr>\<rparr>
   \<and> OnMessagesReceived evs c =
     (AcceptDataList (expected_periods (map snd evs)) c)
       \<lparr>derived := (derived c)\<lparr>time_last_message_received_m := snd (last evs)\<rparr>\<rparr>"
    by (simp add: evs)
qed

theorem OnMessageReceived_periods_witness:
  "time_last_message_received_m (derived ReceivedMessagePeriodCollector_new) = kUninitializedTime
   \<and> time_last_message_received_m (snd (period_SetupStart \<lparr>time_last_message_received_m = 42\<rparr>)) = kUninitializedTime
   \<and> [((), 1000000), ((), 1050000), ((), 1120000 :: 64 word)] \<noteq> []
   \<and> kUninitializedTime \<notin> snd ` set [((), 1000000), ((), 1050000), ((), 1120000 :: 64 word)]
   \<and> OnMessageReceived () 1000000 ReceivedMessagePeriodCollector_new =
       ReceivedMessagePeriodCollector_new\<lparr>derived := \<lparr>time_last_message_received_m = 1000000\<rparr>\<rparr>
   \<and> OnMessagesReceived [((), 1000000), ((), 1050000), ((), 1120000)] ReceivedMessagePeriodCollector_new =
       (AcceptDataList [Fin (1 / 20), Fin (7 / 100)] ReceivedMessagePeriodCollector_new)
         \<lparr>derived := \<lparr>time_last_message_received_m = 1120000\<rparr>\<rparr>"
  using OnMessageReceived_periods
    [of ReceivedMessagePeriodCollector_new "[((), 1000000), ((), 1050000), ((), 1120000)]"]
  by (simp add: ReceivedMessagePeriodCollector_new_def Collector_new_def
      ResetTimeLastMessageReceived_def kUninitializedTime_def milliseconds_of_nanoseconds_def
      period_SetupStart_def)

text \<open>
  C8 as stated covers every sequence of events. When the first event is received at
  time 0, the recorded time is the sentinel again: the second event, at time 5, is taken
  for a first one and feeds nothing, where the claim expects the observation of 5 ns.
\<close>

theorem OnMessageReceived_zero_time_counterexample:
  "time_last_message_received_m (derived ReceivedMessagePeriodCollector_new) = kUninitializedTime
   \<and> expected_periods [0, 5] = [Fin (1 / 200000)]
   \<and> GetCount (collected_data_m
        (AcceptDataList (expected_periods [0, 5]) ReceivedMessagePeriodCollector_new)) = 1
   \<and> GetCount (collected_data_m
        (OnMessagesReceived [((), 0), ((), 5)] ReceivedMessagePeriodCollector_new)) = 0
   \<and> OnMessagesReceived [((), 0), ((), 5)] ReceivedMessagePeriodCollector_new \<noteq>
       (AcceptDataList (expected_periods (map snd [((), 0), ((), 5)])) ReceivedMessagePeriodCollector_new)
         \<lparr>derived := (derived ReceivedMessagePeriodCollector_new)\<lparr>time_last_message_received_m := 5\<rparr>\<rparr>"
  by (simp add: ReceivedMessagePeriodCollector_new_def Collector_new_def
      ResetTimeLastMessageReceived_def kUninitializedTime_def milliseconds_of_nanoseconds_def
      OnMessagesReceived_def OnMessageReceived_def AcceptDataList_def AcceptData_def
      AddMeasurement_def MovingAverageStatistics_default_def GetCount_def Let_def)

section \<open>Properties of the result message\<close>

text \<open>
  C9. For every snapshot and metadata, \<open>GenerateStatisticMessage\<close> returns the message
  with the metadata copied and exactly five data points in the order average, maximum,
  minimum, sample count, standard deviation, each with its type code; the sample count
  is converted to a double. The function is total and its arguments are values.
\<close>

theorem GenerateStatisticMessage_layout:
  "GenerateStatisticMessage node_name metric_name unit ws we d =
     \<lparr>measurement_source_name = node_name, metrics_source = metric_name, unit_name = unit,
      window_start = ws, window_stop = we,
      statistics =
        [\<lparr>data_type = STATISTICS_DATA_TYPE_AVERAGE, data = average d\<rparr>,
         \<lparr>data_type = STATISTICS_DATA_TYPE_MAXIMUM, data = max_val d\<rparr>,
         \<lparr>data_type = STATISTICS_DATA_TYPE_MINIMUM, data = min_val d\<rparr>,
         \<lparr>data_type = STATISTICS_DATA_TYPE_SAMPLE_COUNT, data = Fin (real (unat (sample_count d)))\<rparr>,
         \<lparr>data_type = STATISTICS_DATA_TYPE_STDDEV, data = standard_deviation d\<rparr>]\<rparr>
   \<and> length (statistics (GenerateStatisticMessage node_name metric_name unit ws we d)) = 5"
  by (simp add: GenerateStatisticMessage_def MetricsMessage_default_def push_statistic_def
      back_update_def emplace_back_def double_of_uint64_def Let_def)

end
